theory Spec2Isabelle
  imports Main "HOL-Library.Multiset"
begin

section \<open>burrowDB: the reflective entity store of db.go\<close>

text \<open>
  The package stores one Go struct value per file, under
  \<open>dir/type-name/identifier\<close>.  Its two operations, \<open>Put\<close> and \<open>GetByID\<close>,
  are embedded below as functions over an explicit byte store; everything they take from
  the Go standard library (package reflect, fmt, os, encoding/json, errors) is modelled
  in the subsections that come first.
\<close>

subsection \<open>Package reflect: kinds, struct fields, type descriptors\<close>

datatype Kind =
    Invalid | Bool | IntK | Int8 | Int16 | Int32 | Int64
  | Uint | Uint8 | Uint16 | Uint32 | Uint64 | Uintptr
  | Float32 | Float64 | Complex64 | Complex128
  | Array | Chan | Func | Interface | Map | Pointer | Slice | String | Struct
  | UnsafePointer

text \<open>
  A struct tag is kept as its list of key/value pairs, so the conventional tag
  \<^verbatim>\<open>burrowdb:"ID"\<close> is \<open>[(''burrowdb'', ''ID'')]\<close>; \<open>Get\<close> is \<open>StructTag.Get\<close>,
  which yields the empty string for a key that is not there.
\<close>

record StructField =
  Name :: string
  Tag :: "(string \<times> string) list"

definition Get :: "(string \<times> string) list \<Rightarrow> string \<Rightarrow> string" where
  "Get tag key = (case map_of tag key of None \<Rightarrow> [] | Some v \<Rightarrow> v)"

text \<open>
  The Go values of the model: booleans, the integer types \<open>int\<close> and \<open>int64\<close>, strings,
  the nil channel of type \<^verbatim>\<open>chan int\<close> and the nil function of type \<^verbatim>\<open>func()\<close> (two
  kinds that encoding/json cannot encode), pointers, and structs.  A struct carries the
  package path and the name of its type and its visible fields in declaration order, each
  with its value; the names of the visible fields of a Go struct are distinct.  A nil
  pointer carries the zero value of its element type, which stands for that type.
  Slices, maps, floats and embedded structs are outside the model.  \<open>Type.Name\<close> is the
  name without the package, and empty for a type that has no name.
\<close>

datatype gval =
    VBool bool
  | VInt int
  | VInt64 int
  | VString string
  | VChan
  | VFunc
  | VNilPtr gval
  | VPtr gval
  | VStruct string string "(StructField \<times> gval) list"

datatype rtype =
  Type (Kind: Kind) (PkgPath: string) (TypeName: string)
       (Fields: "StructField list") (Elem: "rtype option")

fun rtypeOf :: "gval \<Rightarrow> rtype" where
  "rtypeOf (VBool b) = Type Bool [] ''bool'' [] None"
| "rtypeOf (VInt i) = Type IntK [] ''int'' [] None"
| "rtypeOf (VInt64 i) = Type Int64 [] ''int64'' [] None"
| "rtypeOf (VString s) = Type String [] ''string'' [] None"
| "rtypeOf VChan = Type Chan [] [] [] (Some (Type IntK [] ''int'' [] None))"
| "rtypeOf VFunc = Type Func [] [] [] None"
| "rtypeOf (VNilPtr z) = Type Pointer [] [] [] (Some (rtypeOf z))"
| "rtypeOf (VPtr v) = Type Pointer [] [] [] (Some (rtypeOf v))"
| "rtypeOf (VStruct pkg n fvs) = Type Struct pkg n (map fst fvs) None"

text \<open>
  A value of type \<open>any\<close> is \<open>None\<close> for the nil interface and \<open>Some v\<close> otherwise.
  \<open>reflect.TypeOf(nil)\<close> is the nil \<open>reflect.Type\<close>.
\<close>

definition TypeOf :: "gval option \<Rightarrow> rtype option" where
  "TypeOf v = map_option rtypeOf v"

definition VisibleFields :: "rtype \<Rightarrow> StructField list" where
  "VisibleFields t = Fields t"

text \<open>
  \<open>Value.FieldByName\<close>: the value of the field of that name, \<open>None\<close> for the zero
  \<open>reflect.Value\<close> that a missing field (or a value that is no struct) gives.
\<close>

fun lookupField :: "(StructField \<times> gval) list \<Rightarrow> string \<Rightarrow> gval option" where
  "lookupField [] name = None"
| "lookupField ((f, x) # fvs) name = (if Name f = name then Some x else lookupField fvs name)"

fun FieldByName :: "gval \<Rightarrow> string \<Rightarrow> gval option" where
  "FieldByName (VStruct pkg n fvs) name = lookupField fvs name"
| "FieldByName v name = None"

text \<open>The zero value of the type of a value: what \<^verbatim>\<open>T{}\<close> or \<^verbatim>\<open>var x T\<close> gives.\<close>

fun zero :: "gval \<Rightarrow> gval" where
  "zero (VBool b) = VBool False"
| "zero (VInt i) = VInt 0"
| "zero (VInt64 i) = VInt64 0"
| "zero (VString s) = VString []"
| "zero VChan = VChan"
| "zero VFunc = VFunc"
| "zero (VNilPtr z) = VNilPtr z"
| "zero (VPtr v) = VNilPtr (zero v)"
| "zero (VStruct pkg n fvs) = VStruct pkg n (map (\<lambda>fx. (fst fx, zero (snd fx))) fvs)"

subsection \<open>Errors\<close>

text \<open>
  Go compares error values made by \<open>errors.New\<close> by identity, so each sentinel of the
  package (and \<open>os.ErrNotExist\<close>) is a constructor of its own.  \<open>errorString\<close> is
  what \<open>fmt.Errorf\<close> returns for a format without \<^verbatim>\<open>%w\<close>: a message and nothing else.
  \<open>wrapError\<close> is what it returns with \<^verbatim>\<open>%w\<close>: the message and the wrapped error.
\<close>

datatype Errno = ENOENT | EIO | EACCES | ENOTDIR | EISDIR | EINVAL | ENAMETOOLONG | ELOOP

datatype error =
    ErrInvalidValueType
  | ErrNoIDField
  | ErrMultipleIDFields
  | ErrNoSuchEntity
  | ErrNonPointerDst
  | ErrNotExist
  | errorString string
  | wrapError string error
  | PathError string string error
  | Errno Errno
  | UnsupportedTypeError string
  | UnmarshalTypeError string string
  | InvalidUnmarshalError string

fun Error :: "error \<Rightarrow> string" where
  "Error ErrInvalidValueType = ''invalid value type''"
| "Error ErrNoIDField = ''value has no ID field''"
| "Error ErrMultipleIDFields = ''value has multiple ID fields''"
| "Error ErrNoSuchEntity = ''no such entity exists''"
| "Error ErrNonPointerDst = ''dst is not a pointer''"
| "Error ErrNotExist = ''file does not exist''"
| "Error (errorString s) = s"
| "Error (wrapError s e) = s"
| "Error (PathError op path e) = op @ '' '' @ path @ '': '' @ Error e"
| "Error (Errno ENOENT) = ''no such file or directory''"
| "Error (Errno EIO) = ''input/output error''"
| "Error (Errno EACCES) = ''permission denied''"
| "Error (Errno ENOTDIR) = ''not a directory''"
| "Error (Errno EISDIR) = ''is a directory''"
| "Error (Errno EINVAL) = ''invalid argument''"
| "Error (Errno ENAMETOOLONG) = ''file name too long''"
| "Error (Errno ELOOP) = ''too many levels of symbolic links''"
| "Error (UnsupportedTypeError t) = ''json: unsupported type: '' @ t"
| "Error (UnmarshalTypeError v t) =
     ''json: cannot unmarshal '' @ v @ '' into Go value of type '' @ t"
| "Error (InvalidUnmarshalError t) = ''json: Unmarshal('' @ t @ '')''"

text \<open>\<open>fmt.Errorf(prefix + "%v", err)\<close> and \<open>fmt.Errorf(prefix + "%w", err)\<close>.\<close>

definition Errorf_v :: "string \<Rightarrow> error \<Rightarrow> error" where
  "Errorf_v prefix err = errorString (prefix @ Error err)"

definition Errorf_w :: "string \<Rightarrow> error \<Rightarrow> error" where
  "Errorf_w prefix err = wrapError (prefix @ Error err) err"

text \<open>\<open>errors.Unwrap\<close> and \<open>errors.Is\<close>; \<open>ENOENT\<close> is the errno that is \<open>os.ErrNotExist\<close>.\<close>

fun Unwrap :: "error \<Rightarrow> error option" where
  "Unwrap (wrapError s e) = Some e"
| "Unwrap (PathError op path e) = Some e"
| "Unwrap e = None"

fun errors_Is :: "error \<Rightarrow> error \<Rightarrow> bool" where
  "errors_Is (wrapError s e) target = (wrapError s e = target \<or> errors_Is e target)"
| "errors_Is (PathError op path e) target =
     (PathError op path e = target \<or> errors_Is e target)"
| "errors_Is (Errno n) target = (Errno n = target \<or> (n = ENOENT \<and> target = ErrNotExist))"
| "errors_Is e target = (e = target)"

subsection \<open>Package os: the byte store\<close>

text \<open>
  The store is the file system as the three calls of package os see it.  \<open>resolve\<close> is
  what the operating system makes of a path string: the directory entry that the path
  denotes (a key of type \<open>'k\<close>), or the error of a path that it cannot resolve (a
  component that is a regular file, a name that is too long or invalid, a directory that
  may not be searched, a missing directory on the way).  Two path strings may denote one
  entry: \<^verbatim>\<open>..\<close> segments, doubled slashes, names that differ in case on a volume that
  ignores case.  The directories and the files are keyed by the entries, and \<open>'b\<close> is the
  type of file contents.

  \<open>MkdirAll\<close> fails on a path that does not resolve and on one that is a file;
  \<open>WriteFile\<close> on a path that does not resolve and on one that is a directory;
  \<open>ReadFile\<close> on a path that does not resolve, on a directory, and on an entry that is
  not there.  The calls leave \<open>resolve\<close> as it is, a file needs no parent directory,
  and the permissions of files are not modelled.
\<close>

record ('k, 'b) fs =
  resolve :: "string \<Rightarrow> Errno + 'k"
  dirs :: "'k set"
  files :: "'k \<rightharpoonup> 'b"

definition MkdirAll :: "('k, 'b) fs \<Rightarrow> string \<Rightarrow> error + ('k, 'b) fs" where
  "MkdirAll st path =
     (case resolve st path of
        Inl n \<Rightarrow> Inl (PathError ''mkdir'' path (Errno n))
      | Inr k \<Rightarrow>
          if k \<in> dom (files st) then Inl (PathError ''mkdir'' path (Errno ENOTDIR))
          else Inr (st\<lparr>dirs := insert k (dirs st)\<rparr>))"

definition WriteFile :: "('k, 'b) fs \<Rightarrow> string \<Rightarrow> 'b \<Rightarrow> error + ('k, 'b) fs" where
  "WriteFile st path data =
     (case resolve st path of
        Inl n \<Rightarrow> Inl (PathError ''open'' path (Errno n))
      | Inr k \<Rightarrow>
          if k \<in> dirs st then Inl (PathError ''open'' path (Errno EISDIR))
          else Inr (st\<lparr>files := (files st)(k \<mapsto> data)\<rparr>))"

definition ReadFile :: "('k, 'b) fs \<Rightarrow> string \<Rightarrow> error + 'b" where
  "ReadFile st path =
     (case resolve st path of
        Inl n \<Rightarrow> Inl (PathError ''open'' path (Errno n))
      | Inr k \<Rightarrow>
          (case files st k of
             Some data \<Rightarrow> Inr data
           | None \<Rightarrow>
               if k \<in> dirs st then Inl (PathError ''read'' path (Errno EISDIR))
               else Inl (PathError ''open'' path (Errno ENOENT))))"

text \<open>
  The resolution used for the concrete runs: a volume that tells upper case from lower
  case and has no symbolic links, with paths resolved by their text as \<open>filepath.Clean\<close>
  does.  The key of an entry is the list of its components, with \<open>''/''\<close> in front for an
  absolute path.  \<open>below file\<close> is the same volume once \<open>file\<close> is a regular file:
  no path runs through it.
\<close>

fun splitPath :: "string \<Rightarrow> string list" where
  "splitPath [] = [[]]"
| "splitPath (c # cs) =
     (if c = CHR ''/'' then [] # splitPath cs
      else (case splitPath cs of [] \<Rightarrow> [[c]] | w # ws \<Rightarrow> (c # w) # ws))"

definition cleanStep :: "string list \<Rightarrow> string \<Rightarrow> string list" where
  "cleanStep stack c =
     (if c = [] \<or> c = ''.'' then stack
      else if c = ''..'' then
        (if stack = [] \<or> last stack = ''..'' then stack @ [''..'']
         else if stack = [''/''] then stack
         else butlast stack)
      else stack @ [c])"

definition cleanFrom :: "string \<Rightarrow> string list" where
  "cleanFrom path = (case path of c # cs \<Rightarrow> (if c = CHR ''/'' then [''/''] else []) | [] \<Rightarrow> [])"

definition cleanPath :: "string \<Rightarrow> string list" where
  "cleanPath path = foldl cleanStep (cleanFrom path) (splitPath path)"

definition lexical :: "string \<Rightarrow> Errno + string list" where
  "lexical path = Inr (cleanPath path)"

definition below :: "string list \<Rightarrow> string \<Rightarrow> Errno + string list" where
  "below file path =
     (if length file < length (cleanPath path) \<and> take (length file) (cleanPath path) = file
      then Inl ENOTDIR
      else Inr (cleanPath path))"


subsection \<open>The codec and the formatter\<close>

text \<open>
  \<open>json.Marshal\<close>, \<open>json.Unmarshal\<close> and the \<^verbatim>\<open>%v\<close> verb of package fmt are the
  parameters of the model.  \<open>Unmarshal lib data dst\<close> is given the destination pointer
  and returns it with its new contents, or the error.
\<close>

record 'b lib =
  Marshal :: "gval \<Rightarrow> error + 'b"
  Unmarshal :: "'b \<Rightarrow> gval \<Rightarrow> error + gval"
  Sprint :: "gval \<Rightarrow> string"

text \<open>
  \<^verbatim>\<open>%v\<close> of an operand of type \<open>any\<close>, and of a \<open>reflect.Value\<close> (the zero
  \<open>reflect.Value\<close> prints as \<^verbatim>\<open><invalid reflect.Value>\<close>).
\<close>

definition Sprint_any :: "'b lib \<Rightarrow> gval option \<Rightarrow> string" where
  "Sprint_any lib a = (case a of None \<Rightarrow> ''<nil>'' | Some v \<Rightarrow> Sprint lib v)"

definition Sprint_Value :: "'b lib \<Rightarrow> gval option \<Rightarrow> string" where
  "Sprint_Value lib a =
     (case a of None \<Rightarrow> ''<invalid reflect.Value>'' | Some v \<Rightarrow> Sprint lib v)"

subsection \<open>db.go\<close>

definition structTagName :: string where
  "structTagName = ''burrowdb''"

definition idFieldName :: string where
  "idFieldName = ''ID''"

record BurrowDB =
  dir :: string

text \<open>A call either panics or returns.\<close>

datatype 'a outcome = Panic | Return 'a

text \<open>
  The loop of \<open>Put\<close> over the visible fields (db.go, lines 78 to 94), with the variable
  \<open>idField\<close> as its state; \<open>Inl\<close> is the early return of the function.  The loop variable
  is a fresh one in each iteration (Go 1.22 and later), so \<open>&field\<close> is the field of
  the iteration that took it.
\<close>

fun idFieldLoop :: "StructField list \<Rightarrow> StructField option \<Rightarrow> error + StructField option" where
  "idFieldLoop [] idField = Inr idField"
| "idFieldLoop (field # rest) idField =
     (if Name field = idFieldName then
        (if idField \<noteq> None then Inl ErrMultipleIDFields
         else idFieldLoop rest (Some field))
      else if Get (Tag field) structTagName = idFieldName then
        (if idField \<noteq> None then Inl ErrMultipleIDFields
         else idFieldLoop rest (Some field))
      else idFieldLoop rest idField)"

text \<open>
  \<open>Put\<close> returns its error (\<open>None\<close> for nil) and the store as it leaves it.
  \<open>reflect.TypeOf(v)\<close> of the nil interface is nil, and the call of \<open>Kind\<close> on it
  panics.  Past that call \<open>v\<close> is not nil, and \<open>the v\<close> is the value it holds.
\<close>

definition Put ::
  "'b lib \<Rightarrow> BurrowDB \<Rightarrow> ('k, 'b) fs \<Rightarrow> gval option \<Rightarrow> (error option \<times> ('k, 'b) fs) outcome" where
  "Put lib db st v =
     (case TypeOf v of
        None \<Rightarrow> Panic
      | Some ty \<Rightarrow>
          if Kind ty \<noteq> Struct then Return (Some ErrInvalidValueType, st)
          else
            (case idFieldLoop (VisibleFields ty) None of
               Inl err \<Rightarrow> Return (Some err, st)
             | Inr None \<Rightarrow> Return (Some ErrNoIDField, st)
             | Inr (Some idField) \<Rightarrow>
                 (case Marshal lib (the v) of
                    Inl err \<Rightarrow> Return (Some (Errorf_v ''unable to marshal value: '' err), st)
                  | Inr data \<Rightarrow>
                      let typeDir = dir db @ ''/'' @ TypeName ty in
                      (case MkdirAll st typeDir of
                         Inl err \<Rightarrow>
                           Return (Some (Errorf_w ''unable to create type dir: '' err), st)
                       | Inr st1 \<Rightarrow>
                           let filename = typeDir @ ''/'' @
                                 Sprint_Value lib (FieldByName (the v) (Name idField)) in
                           (case WriteFile st1 filename data of
                              Inl err \<Rightarrow>
                                Return (Some (Errorf_w ''unable to write file: '' err), st1)
                            | Inr st2 \<Rightarrow> Return (None, st2))))))"

text \<open>
  \<open>GetByID\<close> leaves the store as it is.  It returns the error, or the destination
  pointer with the contents that \<open>json.Unmarshal\<close> gave it; what a failed call leaves in
  the destination is not modelled.  \<open>Type.Elem\<close> panics on a type that has no element
  type, which a pointer type always has.
\<close>

definition GetByID ::
  "'b lib \<Rightarrow> BurrowDB \<Rightarrow> ('k, 'b) fs \<Rightarrow> gval option \<Rightarrow> gval option \<Rightarrow> (error + gval) outcome" where
  "GetByID lib db st dst id' =
     (case TypeOf dst of
        None \<Rightarrow> Panic
      | Some ty \<Rightarrow>
          if Kind ty \<noteq> Pointer then Return (Inl ErrNonPointerDst)
          else
            (case Elem ty of
               None \<Rightarrow> Panic
             | Some elem \<Rightarrow>
                 let filename = dir db @ ''/'' @ TypeName elem @ ''/'' @ Sprint_any lib id' in
                 (case ReadFile st filename of
                    Inl err \<Rightarrow>
                      if errors_Is err ErrNotExist then Return (Inl ErrNoSuchEntity)
                      else Return (Inl (Errorf_w ''unable to get entity: '' err))
                  | Inr data \<Rightarrow>
                      (case Unmarshal lib data (the dst) of
                         Inl err \<Rightarrow> Return (Inl (Errorf_w ''unable to unmarshal data: '' err))
                       | Inr dst' \<Rightarrow> Return (Inr dst')))))"

subsection \<open>encoding/json and fmt on the values of the model\<close>

text \<open>
  The instance of the codec used for concrete runs.  An encoded document is kept as its
  syntax tree, not as its text.  As in encoding/json, only exported fields (upper-case
  first letter) are written and read, a nil pointer is \<open>null\<close>, \<open>null\<close> leaves a
  destination that is not a pointer as it is, and channels and functions are not
  supported.  The structs have no \<open>json\<close> tags, keys are matched exactly, and the message
  of a type mismatch is the one for a top-level value.
\<close>

datatype json =
    JNull | JBool bool | JNumber int | JString string | JObject "(string \<times> json) list"

definition isExported :: "string \<Rightarrow> bool" where
  "isExported name =
     (case name of [] \<Rightarrow> False | c # cs \<Rightarrow> c \<in> set ''ABCDEFGHIJKLMNOPQRSTUVWXYZ'')"

fun typeString :: "gval \<Rightarrow> string" where
  "typeString (VBool b) = ''bool''"
| "typeString (VInt i) = ''int''"
| "typeString (VInt64 i) = ''int64''"
| "typeString (VString s) = ''string''"
| "typeString VChan = ''chan int''"
| "typeString VFunc = ''func()''"
| "typeString (VNilPtr z) = ''*'' @ typeString z"
| "typeString (VPtr v) = ''*'' @ typeString v"
| "typeString (VStruct pkg n fvs) = pkg @ ''.'' @ n"

fun encode :: "gval \<Rightarrow> error + json"
  and encodeFields :: "(StructField \<times> gval) list \<Rightarrow> error + (string \<times> json) list" where
  "encode (VBool b) = Inr (JBool b)"
| "encode (VInt i) = Inr (JNumber i)"
| "encode (VInt64 i) = Inr (JNumber i)"
| "encode (VString s) = Inr (JString s)"
| "encode VChan = Inl (UnsupportedTypeError ''chan int'')"
| "encode VFunc = Inl (UnsupportedTypeError ''func()'')"
| "encode (VNilPtr z) = Inr JNull"
| "encode (VPtr v) = encode v"
| "encode (VStruct pkg n fvs) =
     (case encodeFields fvs of Inl err \<Rightarrow> Inl err | Inr kvs \<Rightarrow> Inr (JObject kvs))"
| "encodeFields [] = Inr []"
| "encodeFields ((f, x) # fvs) =
     (if isExported (Name f) then
        (case encode x of
           Inl err \<Rightarrow> Inl err
         | Inr j \<Rightarrow>
             (case encodeFields fvs of
                Inl err \<Rightarrow> Inl err
              | Inr kvs \<Rightarrow> Inr ((Name f, j) # kvs)))
      else encodeFields fvs)"

fun jsonKind :: "json \<Rightarrow> string" where
  "jsonKind JNull = ''null''"
| "jsonKind (JBool b) = ''bool''"
| "jsonKind (JNumber n) = ''number''"
| "jsonKind (JString s) = ''string''"
| "jsonKind (JObject kvs) = ''object''"

fun decode :: "json \<Rightarrow> gval \<Rightarrow> error + gval"
  and decodeObject ::
    "(string \<times> json) list \<Rightarrow> (StructField \<times> gval) list \<Rightarrow> error + (StructField \<times> gval) list"
  and decodeField ::
    "string \<Rightarrow> json \<Rightarrow> (StructField \<times> gval) list \<Rightarrow> error + (StructField \<times> gval) list" where
  "decode j (VBool b) =
     (case j of JNull \<Rightarrow> Inr (VBool b) | JBool b' \<Rightarrow> Inr (VBool b')
      | _ \<Rightarrow> Inl (UnmarshalTypeError (jsonKind j) ''bool''))"
| "decode j (VInt i) =
     (case j of JNull \<Rightarrow> Inr (VInt i) | JNumber n \<Rightarrow> Inr (VInt n)
      | _ \<Rightarrow> Inl (UnmarshalTypeError (jsonKind j) ''int''))"
| "decode j (VInt64 i) =
     (case j of JNull \<Rightarrow> Inr (VInt64 i) | JNumber n \<Rightarrow> Inr (VInt64 n)
      | _ \<Rightarrow> Inl (UnmarshalTypeError (jsonKind j) ''int64''))"
| "decode j (VString s) =
     (case j of JNull \<Rightarrow> Inr (VString s) | JString s' \<Rightarrow> Inr (VString s')
      | _ \<Rightarrow> Inl (UnmarshalTypeError (jsonKind j) ''string''))"
| "decode j VChan =
     (case j of JNull \<Rightarrow> Inr VChan
      | _ \<Rightarrow> Inl (UnmarshalTypeError (jsonKind j) ''chan int''))"
| "decode j VFunc =
     (case j of JNull \<Rightarrow> Inr VFunc
      | _ \<Rightarrow> Inl (UnmarshalTypeError (jsonKind j) ''func()''))"
| "decode j (VNilPtr z) =
     (if j = JNull then Inr (VNilPtr z)
      else (case decode j z of Inl err \<Rightarrow> Inl err | Inr x \<Rightarrow> Inr (VPtr x)))"
| "decode j (VPtr v) =
     (if j = JNull then Inr (VNilPtr (zero v))
      else (case decode j v of Inl err \<Rightarrow> Inl err | Inr x \<Rightarrow> Inr (VPtr x)))"
| "decode j (VStruct pkg n fvs) =
     (case j of
        JNull \<Rightarrow> Inr (VStruct pkg n fvs)
      | JObject kvs \<Rightarrow>
          (case decodeObject kvs fvs of
             Inl err \<Rightarrow> Inl err
           | Inr fvs' \<Rightarrow> Inr (VStruct pkg n fvs'))
      | _ \<Rightarrow> Inl (UnmarshalTypeError (jsonKind j) (pkg @ ''.'' @ n)))"
| "decodeObject [] fvs = Inr fvs"
| "decodeObject ((k, j) # kvs) fvs =
     (case decodeField k j fvs of
        Inl err \<Rightarrow> Inl err
      | Inr fvs' \<Rightarrow> decodeObject kvs fvs')"
| "decodeField k j [] = Inr []"
| "decodeField k j ((f, x) # fvs) =
     (if isExported (Name f) \<and> Name f = k then
        (case decode j x of Inl err \<Rightarrow> Inl err | Inr x' \<Rightarrow> Inr ((f, x') # fvs))
      else
        (case decodeField k j fvs of
           Inl err \<Rightarrow> Inl err
         | Inr fvs' \<Rightarrow> Inr ((f, x) # fvs')))"

text \<open>
  \<open>json.Unmarshal(data, dst)\<close> wants a pointer that is not nil and decodes into what
  it points to.
\<close>

fun json_Unmarshal :: "json \<Rightarrow> gval \<Rightarrow> error + gval" where
  "json_Unmarshal data (VPtr v) =
     (case decode data v of Inl err \<Rightarrow> Inl err | Inr v' \<Rightarrow> Inr (VPtr v'))"
| "json_Unmarshal data (VNilPtr z) = Inl (InvalidUnmarshalError (''nil *'' @ typeString z))"
| "json_Unmarshal data v = Inl (InvalidUnmarshalError (''non-pointer '' @ typeString v))"

text \<open>
  The \<^verbatim>\<open>%v\<close> verb: decimal integers, strings as they are, the fields of a struct
  between braces, \<^verbatim>\<open>&{...}\<close> for a pointer to a struct at top level.  What any other
  pointer that is not nil prints is its address, which the model does not have: the
  formatter prints one fixed address for all of them.
\<close>

fun natString :: "nat \<Rightarrow> string" where
  "natString n =
     (if n < 10 then [''0123456789'' ! n]
      else natString (n div 10) @ [''0123456789'' ! (n mod 10)])"

definition intString :: "int \<Rightarrow> string" where
  "intString i = (if i < 0 then ''-'' @ natString (nat (- i)) else natString (nat i))"

fun joinSpace :: "string list \<Rightarrow> string" where
  "joinSpace [] = []"
| "joinSpace [s] = s"
| "joinSpace (s # t # ss) = s @ '' '' @ joinSpace (t # ss)"

fun printValue :: "nat \<Rightarrow> gval \<Rightarrow> string" where
  "printValue depth (VBool b) = (if b then ''true'' else ''false'')"
| "printValue depth (VInt i) = intString i"
| "printValue depth (VInt64 i) = intString i"
| "printValue depth (VString s) = s"
| "printValue depth VChan = ''<nil>''"
| "printValue depth VFunc = ''<nil>''"
| "printValue depth (VNilPtr z) = ''<nil>''"
| "printValue depth (VPtr v) =
     (case v of
        VStruct pkg n fvs \<Rightarrow>
          if depth = 0 then ''&'' @ printValue (Suc depth) v else ''0xc000012120''
      | _ \<Rightarrow> ''0xc000012120'')"
| "printValue depth (VStruct pkg n fvs) =
     ''{'' @ joinSpace (map (\<lambda>fx. printValue (Suc depth) (snd fx)) fvs) @ ''}''"

definition golib :: "json lib" where
  "golib = \<lparr>Marshal = encode, Unmarshal = json_Unmarshal, Sprint = printValue 0\<rparr>"

subsection \<open>Notions used to state the properties\<close>

text \<open>A field is eligible as the identifier by its name or by its \<open>burrowdb\<close> tag.\<close>

definition matchesID :: "StructField \<Rightarrow> bool" where
  "matchesID f = (Name f = idFieldName \<or> Get (Tag f) structTagName = idFieldName)"

text \<open>
  The identifier token of a record: the text that \<open>Put\<close> appends to the type directory
  (db.go, line 115), when the loop has resolved an identifier field.
\<close>

definition idToken :: "'b lib \<Rightarrow> gval \<Rightarrow> string option" where
  "idToken lib v =
     (case idFieldLoop (VisibleFields (rtypeOf v)) None of
        Inr (Some idField) \<Rightarrow> Some (Sprint_Value lib (FieldByName v (Name idField)))
      | _ \<Rightarrow> None)"

text \<open>
  A plain record: its fields are exported and distinctly named, and each holds a
  boolean, an integer, a string or a plain record.  These are records that the codec
  above decodes back from their encoding.
\<close>

fun plain :: "gval \<Rightarrow> bool" where
  "plain (VBool b) = True"
| "plain (VInt i) = True"
| "plain (VInt64 i) = True"
| "plain (VString s) = True"
| "plain (VStruct pkg n fvs) =
     (distinct (map (Name \<circ> fst) fvs)
      \<and> list_all (\<lambda>fx. isExported (Name (fst fx)) \<and> plain (snd fx)) fvs)"
| "plain v = False"

text \<open>The layout of the store: \<open>root/type-name/identifier-token\<close>.\<close>

definition entityPath :: "BurrowDB \<Rightarrow> string \<Rightarrow> string \<Rightarrow> string" where
  "entityPath db typeName token = dir db @ ''/'' @ typeName @ ''/'' @ token"

subsection \<open>Example records\<close>

text \<open>
  The store of cmd/main.go after \<open>NewDB(WithDir("store"))\<close>, and a record type like its
  \<open>newType\<close> (without the float field): the identifier is the tagged field \<open>Num\<close>.
\<close>

definition exampleDB :: BurrowDB where
  "exampleDB = \<lparr>dir = ''store''\<rparr>"

definition emptyStore :: "(string list, json) fs" where
  "emptyStore = \<lparr>resolve = lexical, dirs = {[''store'']}, files = Map.empty\<rparr>"

definition widgetFields :: "(StructField \<times> gval) list" where
  "widgetFields =
     [(\<lparr>Name = ''Str'', Tag = []\<rparr>, VString ''string''),
      (\<lparr>Name = ''Num'', Tag = [(''burrowdb'', ''ID'')]\<rparr>, VInt64 123)]"

definition widget :: gval where
  "widget = VStruct ''main'' ''Widget'' widgetFields"

text \<open>\<^verbatim>\<open>type Bad struct { A int `burrowdb:"ID"`; B int `burrowdb:"ID"` }\<close>\<close>

definition badFields :: "(StructField \<times> gval) list" where
  "badFields =
     [(\<lparr>Name = ''A'', Tag = [(''burrowdb'', ''ID'')]\<rparr>, VInt 1),
      (\<lparr>Name = ''B'', Tag = [(''burrowdb'', ''ID'')]\<rparr>, VInt 2)]"

text \<open>\<^verbatim>\<open>type Empty struct { X int }\<close>\<close>

definition emptyFields :: "(StructField \<times> gval) list" where
  "emptyFields = [(\<lparr>Name = ''X'', Tag = []\<rparr>, VInt 7)]"

text \<open>\<^verbatim>\<open>type Job struct { ID int; Done chan int }\<close>: a record that json.Marshal rejects.\<close>

definition job :: gval where
  "job = VStruct ''main'' ''Job''
     [(\<lparr>Name = ''ID'', Tag = []\<rparr>, VInt 1), (\<lparr>Name = ''Done'', Tag = []\<rparr>, VChan)]"

text \<open>
  \<^verbatim>\<open>type Account struct { ID int; secret string }\<close>: a record with a field that is not
  exported, and the store after \<open>Put\<close> of it.
\<close>

definition account :: gval where
  "account = VStruct ''main'' ''Account''
     [(\<lparr>Name = ''ID'', Tag = []\<rparr>, VInt 1), (\<lparr>Name = ''secret'', Tag = []\<rparr>, VString ''x'')]"

definition accountStore :: "(string list, json) fs" where
  "accountStore = \<lparr>resolve = lexical, dirs = {[''store'', ''Account''], [''store'']},
      files = [[''store'', ''Account'', ''1''] \<mapsto> JObject [(''ID'', JNumber 1)]]\<rparr>"

text \<open>The store after \<open>Put\<close> of \<open>widget\<close>.\<close>

definition widgetStore :: "(string list, json) fs" where
  "widgetStore = \<lparr>resolve = lexical, dirs = {[''store'', ''Widget''], [''store'']},
      files = [[''store'', ''Widget'', ''123''] \<mapsto>
                 JObject [(''Str'', JString ''string''), (''Num'', JNumber 123)]]\<rparr>"

text \<open>A store in which the path of the widget is a directory.\<close>

definition dirStore :: "(string list, json) fs" where
  "dirStore =
     \<lparr>resolve = lexical,
      dirs = {[''store''], [''store'', ''Widget''], [''store'', ''Widget'', ''123'']},
      files = Map.empty\<rparr>"

text \<open>
  A record of a struct type that has no name, \<^verbatim>\<open>struct { ID string }{"Widget"}\<close>.  Its
  type directory is \<^verbatim>\<open>store/\<close> and its file \<^verbatim>\<open>store//Widget\<close>, the entry
  \<^verbatim>\<open>store/Widget\<close>.  \<open>fileStore\<close> is the store after \<open>Put\<close> of it, as the operating
  system then resolves paths: \<^verbatim>\<open>store/Widget\<close> is a regular file, and no path runs
  through it.
\<close>

definition anon :: gval where
  "anon = VStruct [] [] [(\<lparr>Name = ''ID'', Tag = []\<rparr>, VString ''Widget'')]"

definition anonStore :: "(string list, json) fs" where
  "anonStore = \<lparr>resolve = lexical, dirs = {[''store'']},
      files = [[''store'', ''Widget''] \<mapsto> JObject [(''ID'', JString ''Widget'')]]\<rparr>"

definition fileStore :: "(string list, json) fs" where
  "fileStore = \<lparr>resolve = below [''store'', ''Widget''], dirs = {[''store'']},
      files = [[''store'', ''Widget''] \<mapsto> JObject [(''ID'', JString ''Widget'')]]\<rparr>"

text \<open>A store that holds a document for the type \<open>Bad\<close>, written by other means.\<close>

definition badStore :: "(string list, json) fs" where
  "badStore = \<lparr>resolve = lexical, dirs = {[''store''], [''store'', ''Bad'']},
      files = [[''store'', ''Bad'', ''1''] \<mapsto> JObject [(''A'', JNumber 1), (''B'', JNumber 2)]]\<rparr>"







text \<open>
  Two record types of distinct names, \<open>Note\<close> and \<open>Memo\<close>, and a record of each whose
  identifier is the text \<^verbatim>\<open>../Note/x\<close>: both paths, \<^verbatim>\<open>store/Note/../Note/x\<close> and
  \<^verbatim>\<open>store/Memo/../Note/x\<close>, denote the entry \<^verbatim>\<open>store/Note/x\<close>.
\<close>

definition noteRec :: gval where
  "noteRec = VStruct ''main'' ''Note''
     [(\<lparr>Name = ''ID'', Tag = []\<rparr>, VString ''../Note/x''),
      (\<lparr>Name = ''Text'', Tag = []\<rparr>, VString ''first'')]"

definition memoRec :: gval where
  "memoRec = VStruct ''main'' ''Memo''
     [(\<lparr>Name = ''ID'', Tag = []\<rparr>, VString ''../Note/x''),
      (\<lparr>Name = ''Text'', Tag = []\<rparr>, VString ''second'')]"

definition noteStore :: "(string list, json) fs" where
  "noteStore = \<lparr>resolve = lexical, dirs = {[''store'', ''Note''], [''store'']},
      files = [[''store'', ''Note'', ''x''] \<mapsto>
                 JObject [(''ID'', JString ''../Note/x''), (''Text'', JString ''first'')]]\<rparr>"

definition memoStore :: "(string list, json) fs" where
  "memoStore = \<lparr>resolve = lexical,
      dirs = {[''store'', ''Memo''], [''store'', ''Note''], [''store'']},
      files = [[''store'', ''Note'', ''x''] \<mapsto>
                 JObject [(''ID'', JString ''../Note/x''), (''Text'', JString ''second'')]]\<rparr>"

text \<open>A second account and a second widget, with the identifiers of the first ones.\<close>

definition account2 :: gval where
  "account2 = VStruct ''main'' ''Account''
     [(\<lparr>Name = ''ID'', Tag = []\<rparr>, VInt 1), (\<lparr>Name = ''secret'', Tag = []\<rparr>, VString ''y'')]"

definition widget2 :: gval where
  "widget2 = VStruct ''main'' ''Widget''
     [(\<lparr>Name = ''Str'', Tag = []\<rparr>, VString ''other''),
      (\<lparr>Name = ''Num'', Tag = [(''burrowdb'', ''ID'')]\<rparr>, VInt64 123)]"

definition widgetStore2 :: "(string list, json) fs" where
  "widgetStore2 = \<lparr>resolve = lexical, dirs = {[''store'', ''Widget''], [''store'']},
      files = [[''store'', ''Widget'', ''123''] \<mapsto>
                 JObject [(''Str'', JString ''other''), (''Num'', JNumber 123)]]\<rparr>"

section \<open>Properties\<close>

subsection \<open>Auxiliary facts\<close>

lemma idFieldLoop_filter:
  "idFieldLoop fs acc =
     (case filter matchesID fs of
        [] \<Rightarrow> Inr acc
      | [f] \<Rightarrow> (if acc = None then Inr (Some f) else Inl ErrMultipleIDFields)
      | f # g # hs \<Rightarrow> Inl ErrMultipleIDFields)"
  by (induction fs arbitrary: acc) (auto simp: matchesID_def split: list.splits)

lemma filter_perm_single:
  assumes "mset ys = mset xs" and "filter P xs = [a]"
  shows "filter P ys = [a]"
proof -
  have "mset (filter P ys) = mset (filter P xs)"
    using assms(1) by (metis mset_filter)
  then have "mset (filter P ys) = mset [a]" using assms(2) by simp
  then show ?thesis
    by (metis mset_single_iff mset.simps(1) mset.simps(2) add_mset_eq_single)
qed

lemma filter_perm_length:
  assumes "mset ys = mset xs"
  shows "length (filter P ys) = length (filter P xs)"
proof -
  have "mset (filter P ys) = mset (filter P xs)"
    using assms(1) by (metis mset_filter)
  then show ?thesis by (metis size_mset)
qed

lemma lookupField_distinct:
  "distinct (map (Name \<circ> fst) fvs) \<Longrightarrow> (f, x) \<in> set fvs \<Longrightarrow> lookupField fvs (Name f) = Some x"
  by (induction fvs) (auto simp: rev_image_eqI)


lemma WriteFile_Inr:
  "WriteFile st p d = Inr st' \<Longrightarrow>
     \<exists>k. resolve st p = Inr k \<and> files st' = (files st)(k \<mapsto> d)
        \<and> dirs st' = dirs st \<and> resolve st' = resolve st"
  by (auto simp: WriteFile_def split: if_splits sum.splits)

lemma ReadFile_error:
  "ReadFile st p = Inl err \<Longrightarrow> \<exists>op n. err = PathError op p (Errno n)"
  by (auto simp: ReadFile_def split: option.splits if_splits sum.splits)

lemma ReadFile_Inr:
  "ReadFile st p = Inr data \<longleftrightarrow> (\<exists>k. resolve st p = Inr k \<and> files st k = Some data)"
  by (auto simp: ReadFile_def split: option.splits if_splits sum.splits)

lemma TypeName_zero: "TypeName (rtypeOf (zero v)) = TypeName (rtypeOf v)"
  by (cases v) simp_all

text \<open>What a successful \<open>Put\<close> has done, step by step.\<close>

lemma Put_success:
  assumes "Put lib db st (Some v) = Return (None, st')"
  obtains f data st1 where
    "Kind (rtypeOf v) = Struct"
    "idFieldLoop (VisibleFields (rtypeOf v)) None = Inr (Some f)"
    "Marshal lib v = Inr data"
    "MkdirAll st (dir db @ ''/'' @ TypeName (rtypeOf v)) = Inr st1"
    "WriteFile st1 (dir db @ ''/'' @ TypeName (rtypeOf v) @ ''/'' @
        Sprint_Value lib (FieldByName v (Name f))) data = Inr st'"
  using assms
  by (auto simp: Put_def TypeOf_def Let_def split: if_splits sum.splits option.splits)

text \<open>Reading back what a successful \<open>Put\<close> has stored.\<close>

lemma Put_success_read:
  assumes "Put lib db st (Some r) = Return (None, st')"
    and "idToken lib r = Some k"
    and "Marshal lib r = Inr data"
  shows "ReadFile st' (entityPath db (TypeName (rtypeOf r)) k) = Inr data"
proof -
  from assms(1) obtain f data' st1 where
    loop: "idFieldLoop (VisibleFields (rtypeOf r)) None = Inr (Some f)"
    and enc: "Marshal lib r = Inr data'"
    and wr: "WriteFile st1 (dir db @ ''/'' @ TypeName (rtypeOf r) @ ''/'' @
        Sprint_Value lib (FieldByName r (Name f))) data' = Inr st'"
    by (rule Put_success)
  have tok: "k = Sprint_Value lib (FieldByName r (Name f))"
    using loop assms(2) by (simp add: idToken_def)
  have same: "data' = data" using enc assms(3) by simp
  from WriteFile_Inr [OF wr] obtain key where
    "resolve st1 (entityPath db (TypeName (rtypeOf r)) k) = Inr key"
    "files st' = (files st1)(key \<mapsto> data)" "resolve st' = resolve st1"
    using tok same by (auto simp: entityPath_def)
  then show ?thesis by (simp add: ReadFile_Inr)
qed

lemma Put_success_token:
  assumes "Put lib db st (Some r) = Return (None, st')"
  shows "\<exists>k data. idToken lib r = Some k \<and> Marshal lib r = Inr data"
proof -
  from assms obtain f data where
    "idFieldLoop (VisibleFields (rtypeOf r)) None = Inr (Some f)" "Marshal lib r = Inr data"
    by (rule Put_success)
  then show ?thesis by (simp add: idToken_def)
qed








text \<open>The codec of the concrete runs decodes the encoding of a plain record back to it.\<close>

lemma decodeField_skip:
  "list_all (\<lambda>g. Name (fst g) \<noteq> k) done \<Longrightarrow>
   decodeField k j (done @ rest) =
     (case decodeField k j rest of Inl err \<Rightarrow> Inl err | Inr r \<Rightarrow> Inr (done @ r))"
  by (induction "done") (auto split: sum.splits)

lemma fields_roundtrip:
  assumes "list_all (\<lambda>fx. isExported (Name (fst fx))
             \<and> (\<exists>j. encode (snd fx) = Inr j \<and> decode j (zero (snd fx)) = Inr (snd fx))) todo"
    and "distinct (map (Name \<circ> fst) (done @ todo))"
  shows "\<exists>kvs. encodeFields todo = Inr kvs
           \<and> decodeObject kvs (done @ map (\<lambda>fx. (fst fx, zero (snd fx))) todo)
               = Inr (done @ todo)"
  using assms
proof (induction todo arbitrary: "done")
  case Nil
  then show ?case by simp
next
  case (Cons fx todo)
  obtain f x where fx: "fx = (f, x)" by (cases fx)
  from Cons.prems(1) fx obtain j where
    ex: "isExported (Name f)" and enc: "encode x = Inr j" and dec: "decode j (zero x) = Inr x"
    by auto
  have rest: "list_all (\<lambda>fx. isExported (Name (fst fx))
             \<and> (\<exists>j. encode (snd fx) = Inr j \<and> decode j (zero (snd fx)) = Inr (snd fx))) todo"
    using Cons.prems(1) by simp
  have dist: "distinct (map (Name \<circ> fst) ((done @ [(f, x)]) @ todo))"
    using Cons.prems(2) fx by (auto simp: comp_def)
  from Cons.IH [OF rest dist] obtain kvs where
    encs: "encodeFields todo = Inr kvs"
    and decs: "decodeObject kvs ((done @ [(f, x)]) @ map (\<lambda>fx. (fst fx, zero (snd fx))) todo)
               = Inr ((done @ [(f, x)]) @ todo)"
    by blast
  have skip: "list_all (\<lambda>g. Name (fst g) \<noteq> Name f) done"
    using Cons.prems(2) fx by (force simp: list_all_iff comp_def image_iff)
  have step: "decodeField (Name f) j (done @ (f, zero x) # map (\<lambda>fx. (fst fx, zero (snd fx))) todo)
      = Inr (done @ (f, x) # map (\<lambda>fx. (fst fx, zero (snd fx))) todo)"
    using ex dec by (simp add: decodeField_skip [OF skip])
  show ?case
    using ex enc encs decs step fx by simp
qed

lemma plain_roundtrip:
  "plain v \<Longrightarrow> \<exists>j. encode v = Inr j \<and> decode j (zero v) = Inr v"
proof (induction v)
  case (VStruct pkg n fvs)
  have each: "list_all (\<lambda>fx. isExported (Name (fst fx))
             \<and> (\<exists>j. encode (snd fx) = Inr j \<and> decode j (zero (snd fx)) = Inr (snd fx))) fvs"
    unfolding list_all_iff
  proof
    fix fx assume m: "fx \<in> set fvs"
    then have "isExported (Name (fst fx))" and p: "plain (snd fx)"
      using VStruct.prems by (auto simp: list_all_iff)
    moreover have "\<exists>j. encode (snd fx) = Inr j \<and> decode j (zero (snd fx)) = Inr (snd fx)"
      using VStruct.IH [OF m _ p] by (cases fx) auto
    ultimately show "isExported (Name (fst fx))
             \<and> (\<exists>j. encode (snd fx) = Inr j \<and> decode j (zero (snd fx)) = Inr (snd fx))"
      by simp
  qed
  have dist: "distinct (map (Name \<circ> fst) ([] @ fvs))"
    using VStruct.prems by (simp add: comp_def)
  from fields_roundtrip [OF each dist] show ?case by auto
qed simp_all

lemma golib_plain_roundtrip:
  "plain r \<Longrightarrow>
   \<exists>data. Marshal golib r = Inr data \<and> Unmarshal golib data (VPtr (zero r)) = Inr (VPtr r)"
  using plain_roundtrip [of r] by (auto simp: golib_def)

lemma GetByID_fresh:
  assumes "ReadFile st (entityPath db (TypeName (rtypeOf r)) (Sprint_any lib id')) = Inr data"
    and "Unmarshal lib data (VPtr (zero r)) = Inr d"
  shows "GetByID lib db st (Some (VPtr (zero r))) id' = Return (Inr d)"
  using assms
  by (simp add: GetByID_def TypeOf_def Let_def TypeName_zero entityPath_def)

lemmas run_simps =
  Put_def GetByID_def TypeOf_def VisibleFields_def golib_def idFieldName_def
  structTagName_def Get_def isExported_def Errorf_v_def Errorf_w_def MkdirAll_def
  WriteFile_def ReadFile_def Sprint_Value_def Sprint_any_def intString_def
  exampleDB_def emptyStore_def Let_def lexical_def cleanPath_def cleanStep_def cleanFrom_def

subsection \<open>The nil interface\<close>

text \<open>
  C9.  \<open>Put(nil)\<close> and \<open>GetByID(nil, id)\<close> do not return an error: the type descriptor
  of the nil interface is nil, and asking it for its kind panics.
\<close>

theorem nil_interface_panics:
  "Put lib db st None = Panic \<and> GetByID lib db st None id' = Panic"
  by (simp add: Put_def GetByID_def TypeOf_def)

subsection \<open>Values that are not structs\<close>

text \<open>
  C7.  For every value that is not nil and whose kind is not \<open>Struct\<close>, \<open>Put\<close> returns
  \<open>ErrInvalidValueType\<close>.  Nothing else has happened by then: the result is the
  same whatever the codec and the formatter are, and the store is the one \<open>Put\<close> was given.
\<close>

theorem Put_rejects_non_struct:
  "Kind (rtypeOf v) \<noteq> Struct \<Longrightarrow>
   Put lib db st (Some v) = Return (Some ErrInvalidValueType, st)"
  by (simp add: Put_def TypeOf_def)

theorem Put_rejects_non_struct_witness:
  "Kind (rtypeOf (VPtr widget)) \<noteq> Struct
   \<and> Put golib exampleDB emptyStore (Some (VPtr widget))
       = Return (Some ErrInvalidValueType, emptyStore)
   \<and> Put golib exampleDB emptyStore (Some (VInt 5))
       = Return (Some ErrInvalidValueType, emptyStore)"
proof -
  have p: "Kind (rtypeOf (VPtr widget)) \<noteq> Struct" by simp
  have i: "Kind (rtypeOf (VInt 5)) \<noteq> Struct" by simp
  show ?thesis
    using p Put_rejects_non_struct [OF p, of golib exampleDB emptyStore]
      Put_rejects_non_struct [OF i, of golib exampleDB emptyStore]
    by simp
qed

subsection \<open>Failures before the store is touched\<close>

text \<open>
  C10.  When \<open>Put\<close> returns \<open>ErrInvalidValueType\<close>, \<open>ErrNoIDField\<close>,
  \<open>ErrMultipleIDFields\<close> or the error of a failed encoding, the store is unchanged: no
  directory has been made and no file written.
\<close>

theorem Put_early_error_keeps_store:
  assumes "Put lib db st v = Return (Some err, st')"
    and "err = ErrInvalidValueType \<or> err = ErrNoIDField \<or> err = ErrMultipleIDFields
         \<or> (\<exists>cause. err = Errorf_v ''unable to marshal value: '' cause)"
  shows "st' = st"
  using assms
  by (auto simp: Put_def Let_def Errorf_v_def Errorf_w_def
           split: option.splits sum.splits if_splits)

theorem Put_early_error_keeps_store_witness:
  "Put golib exampleDB emptyStore (Some job)
     = Return (Some (Errorf_v ''unable to marshal value: '' (UnsupportedTypeError ''chan int'')),
               emptyStore)"
proof -
  have run: "Put golib exampleDB emptyStore (Some job)
     = Return (Some (Errorf_v ''unable to marshal value: '' (UnsupportedTypeError ''chan int'')),
               emptyStore)"
    by (simp add: run_simps job_def)
  have kind: "Errorf_v ''unable to marshal value: '' (UnsupportedTypeError ''chan int'') = ErrInvalidValueType
      \<or> Errorf_v ''unable to marshal value: '' (UnsupportedTypeError ''chan int'') = ErrNoIDField
      \<or> Errorf_v ''unable to marshal value: '' (UnsupportedTypeError ''chan int'') = ErrMultipleIDFields
      \<or> (\<exists>cause. Errorf_v ''unable to marshal value: '' (UnsupportedTypeError ''chan int'')
            = Errorf_v ''unable to marshal value: '' cause)"
    by blast
  show ?thesis
    using run Put_early_error_keeps_store [OF run kind]
    by simp
qed

subsection \<open>Resolution of the identifier field\<close>

text \<open>
  C2.  The fields of a struct type are its visible fields in any order of declaration
  (\<open>fvs'\<close> is a permutation of \<open>fvs\<close>).  If no field matches, \<open>Put\<close> returns
  \<open>ErrNoIDField\<close>; if two or more match, it returns \<open>ErrMultipleIDFields\<close>; if
  exactly one field \<open>f\<close> matches, the loop resolves \<open>f\<close>, the identifier token is the
  text of the value of the field of that name, \<open>Put\<close> returns neither of the two errors,
  and after a successful \<open>Put\<close> the file named by that token holds the encoding.
\<close>

theorem Put_identifier_trichotomy:
  assumes perm: "mset fvs' = mset fvs"
  shows "(filter matchesID (map fst fvs) = [] \<longrightarrow>
            Put lib db st (Some (VStruct pkg n fvs')) = Return (Some ErrNoIDField, st))
       \<and> (2 \<le> length (filter matchesID (map fst fvs)) \<longrightarrow>
            Put lib db st (Some (VStruct pkg n fvs')) = Return (Some ErrMultipleIDFields, st))
       \<and> (\<forall>f. filter matchesID (map fst fvs) = [f] \<longrightarrow>
            idFieldLoop (VisibleFields (rtypeOf (VStruct pkg n fvs'))) None = Inr (Some f)
            \<and> idToken lib (VStruct pkg n fvs')
                = Some (Sprint_Value lib (lookupField fvs' (Name f)))
            \<and> (\<forall>x. distinct (map (Name \<circ> fst) fvs) \<and> (f, x) \<in> set fvs \<longrightarrow>
                  lookupField fvs' (Name f) = Some x)
            \<and> (\<forall>err s. Put lib db st (Some (VStruct pkg n fvs')) = Return (err, s) \<longrightarrow>
                  err \<noteq> Some ErrNoIDField \<and> err \<noteq> Some ErrMultipleIDFields)
            \<and> (\<forall>s. Put lib db st (Some (VStruct pkg n fvs')) = Return (None, s) \<longrightarrow>
                  (\<exists>data. Marshal lib (VStruct pkg n fvs') = Inr data
                     \<and> ReadFile s (entityPath db n (Sprint_Value lib (lookupField fvs' (Name f))))
                         = Inr data)))"
proof -
  let ?v = "VStruct pkg n fvs'"
  have perm': "mset (map fst fvs') = mset (map fst fvs)"
    using perm by (metis mset_map)
  have none: "Put lib db st (Some ?v) = Return (Some ErrNoIDField, st)"
    if "filter matchesID (map fst fvs) = []"
  proof -
    have "length (filter matchesID (map fst fvs')) = 0"
      using filter_perm_length [OF perm', of matchesID] that by (simp del: filter_map)
    then have "filter matchesID (map fst fvs') = []" by (simp only: length_0_conv)
    then show ?thesis
      by (simp add: Put_def TypeOf_def VisibleFields_def idFieldLoop_filter del: filter_map)
  qed
  have many: "Put lib db st (Some ?v) = Return (Some ErrMultipleIDFields, st)"
    if "2 \<le> length (filter matchesID (map fst fvs))"
  proof -
    have "2 \<le> length (filter matchesID (map fst fvs'))"
      using filter_perm_length [OF perm', of matchesID] that by (simp del: filter_map)
    then obtain g h hs where "filter matchesID (map fst fvs') = g # h # hs"
      by (cases "filter matchesID (map fst fvs')" rule: remdups_adj.cases)
         (simp_all del: filter_map)
    then show ?thesis
      by (simp add: Put_def TypeOf_def VisibleFields_def idFieldLoop_filter del: filter_map)
  qed
  have one: "idFieldLoop (VisibleFields (rtypeOf ?v)) None = Inr (Some f)
            \<and> idToken lib ?v = Some (Sprint_Value lib (lookupField fvs' (Name f)))
            \<and> (\<forall>x. distinct (map (Name \<circ> fst) fvs) \<and> (f, x) \<in> set fvs \<longrightarrow>
                  lookupField fvs' (Name f) = Some x)
            \<and> (\<forall>err s. Put lib db st (Some ?v) = Return (err, s) \<longrightarrow>
                  err \<noteq> Some ErrNoIDField \<and> err \<noteq> Some ErrMultipleIDFields)
            \<and> (\<forall>s. Put lib db st (Some ?v) = Return (None, s) \<longrightarrow>
                  (\<exists>data. Marshal lib ?v = Inr data
                     \<and> ReadFile s (entityPath db n (Sprint_Value lib (lookupField fvs' (Name f))))
                         = Inr data))"
    if "filter matchesID (map fst fvs) = [f]" for f
  proof -
    have single: "filter matchesID (map fst fvs') = [f]"
      using filter_perm_single [OF perm' that] .
    have loop: "idFieldLoop (VisibleFields (rtypeOf ?v)) None = Inr (Some f)"
      by (simp add: VisibleFields_def idFieldLoop_filter single del: filter_map)
    have tok: "idToken lib ?v = Some (Sprint_Value lib (lookupField fvs' (Name f)))"
      using loop by (simp add: idToken_def)
    have look: "lookupField fvs' (Name f) = Some x"
      if d: "distinct (map (Name \<circ> fst) fvs)" and m: "(f, x) \<in> set fvs" for x
    proof -
      have "mset (map (Name \<circ> fst) fvs') = mset (map (Name \<circ> fst) fvs)"
        using perm by (metis mset_map)
      then have "distinct (map (Name \<circ> fst) fvs')"
        using d by (metis mset_eq_imp_distinct_iff)
      moreover have "(f, x) \<in> set fvs'"
        using m perm by (metis mset_eq_setD)
      ultimately show ?thesis by (rule lookupField_distinct)
    qed
    have errs: "err \<noteq> Some ErrNoIDField \<and> err \<noteq> Some ErrMultipleIDFields"
      if "Put lib db st (Some ?v) = Return (err, s)" for err s
      using that loop
      by (auto simp: Put_def TypeOf_def Let_def Errorf_v_def Errorf_w_def
               split: sum.splits)
    have written: "\<exists>data. Marshal lib ?v = Inr data
                  \<and> ReadFile s (entityPath db n (Sprint_Value lib (lookupField fvs' (Name f))))
                      = Inr data"
      if run: "Put lib db st (Some ?v) = Return (None, s)" for s
    proof -
      from Put_success_token [OF run] obtain data where enc: "Marshal lib ?v = Inr data"
        by blast
      from Put_success_read [OF run tok enc] enc show ?thesis by simp
    qed
    from loop tok look errs written show ?thesis by blast
  qed
  from none many one show ?thesis by blast
qed

theorem Put_identifier_trichotomy_witness:
  "mset (rev widgetFields) = mset widgetFields
   \<and> filter matchesID (map fst widgetFields)
       = [\<lparr>Name = ''Num'', Tag = [(''burrowdb'', ''ID'')]\<rparr>]
   \<and> idFieldLoop (VisibleFields (rtypeOf (VStruct ''main'' ''Widget'' (rev widgetFields)))) None
       = Inr (Some \<lparr>Name = ''Num'', Tag = [(''burrowdb'', ''ID'')]\<rparr>)
   \<and> idToken golib (VStruct ''main'' ''Widget'' (rev widgetFields)) = Some ''123''
   \<and> Put golib exampleDB emptyStore (Some (VStruct ''main'' ''Bad'' (rev badFields)))
       = Return (Some ErrMultipleIDFields, emptyStore)
   \<and> Put golib exampleDB emptyStore (Some (VStruct ''main'' ''Empty'' emptyFields))
       = Return (Some ErrNoIDField, emptyStore)"
proof -
  have w: "mset (rev widgetFields) = mset widgetFields" by simp
  have b: "mset (rev badFields) = mset badFields" by simp
  have e: "mset emptyFields = mset emptyFields" by simp
  have fw: "filter matchesID (map fst widgetFields)
      = [\<lparr>Name = ''Num'', Tag = [(''burrowdb'', ''ID'')]\<rparr>]"
    by (simp add: widgetFields_def matchesID_def Get_def idFieldName_def structTagName_def)
  have fb: "2 \<le> length (filter matchesID (map fst badFields))"
    by (simp add: badFields_def matchesID_def Get_def idFieldName_def structTagName_def)
  have fe: "filter matchesID (map fst emptyFields) = []"
    by (simp add: emptyFields_def matchesID_def Get_def idFieldName_def structTagName_def)
  have tok: "Sprint_Value golib (lookupField (rev widgetFields) ''Num'') = ''123''"
    by (simp add: widgetFields_def Sprint_Value_def golib_def intString_def)
  show ?thesis
    using w fw fb fe tok
      Put_identifier_trichotomy [OF w, where lib = golib and db = exampleDB
        and st = emptyStore and pkg = "''main''" and n = "''Widget''"]
      Put_identifier_trichotomy [OF b, where lib = golib and db = exampleDB
        and st = emptyStore and pkg = "''main''" and n = "''Bad''"]
      Put_identifier_trichotomy [OF e, where lib = golib and db = exampleDB
        and st = emptyStore and pkg = "''main''" and n = "''Empty''"]
    by simp
qed

subsection \<open>Read failures of GetByID\<close>

text \<open>
  C5.  \<open>GetByID\<close> reads the file at \<open>root/type-name/id\<close>.  Whatever the error of a
  failed read is: when it is \<open>os.ErrNotExist\<close> (the store reports the path absent), the
  result is exactly \<open>ErrNoSuchEntity\<close>; when it is any other error, the result is that
  error wrapped under \<^verbatim>\<open>unable to get entity\<close>, which is not \<open>ErrNoSuchEntity\<close> and is
  not matched by \<open>errors.Is\<close> against it, so the caller can tell the two apart.
\<close>

theorem GetByID_read_failure:
  assumes "Kind (rtypeOf dst) = Pointer" and "Elem (rtypeOf dst) = Some el"
    and "path = entityPath db (TypeName el) (Sprint_any lib id')"
    and rd: "ReadFile st path = Inl err"
  shows "(errors_Is err ErrNotExist \<longrightarrow>
            GetByID lib db st (Some dst) id' = Return (Inl ErrNoSuchEntity))
       \<and> (\<not> errors_Is err ErrNotExist \<longrightarrow>
            GetByID lib db st (Some dst) id'
              = Return (Inl (Errorf_w ''unable to get entity: '' err))
          \<and> Errorf_w ''unable to get entity: '' err \<noteq> ErrNoSuchEntity
          \<and> \<not> errors_Is (Errorf_w ''unable to get entity: '' err) ErrNoSuchEntity
          \<and> Unwrap (Errorf_w ''unable to get entity: '' err) = Some err)"
proof -
  have notexist: "GetByID lib db st (Some dst) id' = Return (Inl ErrNoSuchEntity)"
    if "errors_Is err ErrNotExist"
    using that assms by (simp add: GetByID_def TypeOf_def Let_def entityPath_def)
  have other: "GetByID lib db st (Some dst) id'
                 = Return (Inl (Errorf_w ''unable to get entity: '' err))
             \<and> Errorf_w ''unable to get entity: '' err \<noteq> ErrNoSuchEntity
             \<and> \<not> errors_Is (Errorf_w ''unable to get entity: '' err) ErrNoSuchEntity
             \<and> Unwrap (Errorf_w ''unable to get entity: '' err) = Some err"
    if ne: "\<not> errors_Is err ErrNotExist"
  proof -
    have "GetByID lib db st (Some dst) id'
                 = Return (Inl (Errorf_w ''unable to get entity: '' err))"
      using ne assms by (simp add: GetByID_def TypeOf_def Let_def entityPath_def)
    moreover have "\<not> errors_Is (Errorf_w ''unable to get entity: '' err) ErrNoSuchEntity"
      using ReadFile_error [OF rd] by (auto simp: Errorf_w_def)
    ultimately show ?thesis by (simp add: Errorf_w_def)
  qed
  from notexist other show ?thesis by blast
qed

text \<open>
  Three runs: a path that is not there; a path that is a directory; and a path below the
  regular file \<^verbatim>\<open>store/Widget\<close>, which \<open>Put\<close> of the record \<open>anon\<close> has made.
\<close>

theorem GetByID_read_failure_witness:
  "ReadFile emptyStore ''store/Widget/123''
     = Inl (PathError ''open'' ''store/Widget/123'' (Errno ENOENT))
   \<and> GetByID golib exampleDB emptyStore (Some (VPtr (zero widget))) (Some (VInt 123))
     = Return (Inl ErrNoSuchEntity)
   \<and> ReadFile dirStore ''store/Widget/123''
     = Inl (PathError ''read'' ''store/Widget/123'' (Errno EISDIR))
   \<and> GetByID golib exampleDB dirStore (Some (VPtr (zero widget))) (Some (VInt 123))
     = Return (Inl (wrapError ''unable to get entity: read store/Widget/123: is a directory''
         (PathError ''read'' ''store/Widget/123'' (Errno EISDIR))))
   \<and> Put golib exampleDB emptyStore (Some anon) = Return (None, anonStore)
   \<and> ReadFile fileStore ''store/Widget/123''
     = Inl (PathError ''open'' ''store/Widget/123'' (Errno ENOTDIR))
   \<and> GetByID golib exampleDB fileStore (Some (VPtr (zero widget))) (Some (VInt 123))
     = Return (Inl (wrapError ''unable to get entity: open store/Widget/123: not a directory''
         (PathError ''open'' ''store/Widget/123'' (Errno ENOTDIR))))"
proof -
  have k: "Kind (rtypeOf (VPtr (zero widget))) = Pointer" by simp
  have e: "Elem (rtypeOf (VPtr (zero widget))) = Some (rtypeOf (zero widget))" by simp
  have p: "''store/Widget/123''
      = entityPath exampleDB (TypeName (rtypeOf (zero widget)))
          (Sprint_any golib (Some (VInt 123)))"
    by (simp add: entityPath_def exampleDB_def widget_def Sprint_any_def golib_def
          intString_def)
  have key: "cleanPath ''store/Widget/123'' = [''store'', ''Widget'', ''123'']"
    by (simp add: cleanPath_def cleanStep_def cleanFrom_def)
  have r1: "ReadFile emptyStore ''store/Widget/123''
     = Inl (PathError ''open'' ''store/Widget/123'' (Errno ENOENT))"
    by (simp add: ReadFile_def emptyStore_def lexical_def key)
  have r2: "ReadFile dirStore ''store/Widget/123''
     = Inl (PathError ''read'' ''store/Widget/123'' (Errno EISDIR))"
    by (simp add: ReadFile_def dirStore_def lexical_def key)
  have r3: "ReadFile fileStore ''store/Widget/123''
     = Inl (PathError ''open'' ''store/Widget/123'' (Errno ENOTDIR))"
    by (simp add: ReadFile_def fileStore_def below_def key)
  have put: "Put golib exampleDB emptyStore (Some anon) = Return (None, anonStore)"
    by (simp add: run_simps anon_def anonStore_def)
  show ?thesis
    using r1 r2 r3 put
      GetByID_read_failure [OF k e p r1]
      GetByID_read_failure [OF k e p r2]
      GetByID_read_failure [OF k e p r3]
    by (simp add: Errorf_w_def)
qed

subsection \<open>GetByID resolves no identifier field\<close>

text \<open>
  C8.  For a pointer destination, \<open>GetByID\<close> is a function of the file at the path made
  of the name of the element type and the text of the supplied id, and of what the
  decoder makes of that file: the fields of the destination type are not inspected.  It
  returns neither \<open>ErrNoIDField\<close> nor \<open>ErrMultipleIDFields\<close>, whatever the fields are.
\<close>

theorem GetByID_no_resolution:
  assumes "Kind (rtypeOf dst) = Pointer" and "Elem (rtypeOf dst) = Some el"
  shows "GetByID lib db st (Some dst) id' =
      (case ReadFile st (entityPath db (TypeName el) (Sprint_any lib id')) of
         Inl err \<Rightarrow>
           Return (Inl (if errors_Is err ErrNotExist then ErrNoSuchEntity
                        else Errorf_w ''unable to get entity: '' err))
       | Inr data \<Rightarrow>
           (case Unmarshal lib data dst of
              Inl err \<Rightarrow> Return (Inl (Errorf_w ''unable to unmarshal data: '' err))
            | Inr d \<Rightarrow> Return (Inr d)))
     \<and> GetByID lib db st (Some dst) id' \<noteq> Return (Inl ErrNoIDField)
     \<and> GetByID lib db st (Some dst) id' \<noteq> Return (Inl ErrMultipleIDFields)"
  using assms
  by (auto simp: GetByID_def TypeOf_def Let_def entityPath_def Errorf_w_def
           split: sum.splits)

theorem GetByID_no_resolution_witness:
  "GetByID golib exampleDB badStore
       (Some (VPtr (zero (VStruct ''main'' ''Bad'' badFields)))) (Some (VInt 1))
     = Return (Inr (VPtr (VStruct ''main'' ''Bad'' badFields)))
   \<and> GetByID golib exampleDB badStore
       (Some (VPtr (VStruct ''main'' ''Empty'' emptyFields))) (Some (VInt 1))
     = Return (Inl ErrNoSuchEntity)"
proof -
  have k: "Kind (rtypeOf (VPtr v)) = Pointer" for v by simp
  have e: "Elem (rtypeOf (VPtr v)) = Some (rtypeOf v)" for v by simp
  show ?thesis
    using GetByID_no_resolution [OF k e, of golib exampleDB badStore
        "zero (VStruct ''main'' ''Bad'' badFields)" "Some (VInt 1)"]
      GetByID_no_resolution [OF k e, of golib exampleDB badStore
        "VStruct ''main'' ''Empty'' emptyFields" "Some (VInt 1)"]
    by (simp add: run_simps entityPath_def badStore_def badFields_def)
qed

subsection \<open>The error of a failed encoding\<close>

text \<open>
  C4.  \<open>Put\<close> of a record that the codec rejects returns an error made with the verb
  \<^verbatim>\<open>%v\<close>: it carries the text of the codec's error and no cause, so \<open>errors.Unwrap\<close>
  gives nil and \<open>errors.Is\<close> does not find the codec's error.  The other failures of
  \<open>Put\<close> and \<open>GetByID\<close> are made with \<^verbatim>\<open>%w\<close>; the failed write below keeps its cause.
\<close>

theorem Put_marshal_error_not_wrapped:
  "Put golib exampleDB emptyStore (Some job)
     = Return (Some (errorString ''unable to marshal value: json: unsupported type: chan int''),
               emptyStore)
   \<and> Unwrap (errorString ''unable to marshal value: json: unsupported type: chan int'') = None
   \<and> \<not> errors_Is (errorString ''unable to marshal value: json: unsupported type: chan int'')
          (UnsupportedTypeError ''chan int'')
   \<and> Put golib exampleDB dirStore (Some widget)
     = Return (Some (wrapError ''unable to write file: open store/Widget/123: is a directory''
                 (PathError ''open'' ''store/Widget/123'' (Errno EISDIR))),
               dirStore)
   \<and> Unwrap (wrapError ''unable to write file: open store/Widget/123: is a directory''
                 (PathError ''open'' ''store/Widget/123'' (Errno EISDIR)))
     = Some (PathError ''open'' ''store/Widget/123'' (Errno EISDIR))"
proof -
  have enc: "Put golib exampleDB emptyStore (Some job)
     = Return (Some (errorString ''unable to marshal value: json: unsupported type: chan int''),
               emptyStore)"
    by (simp add: run_simps job_def)
  have dirs: "insert [''store'', ''Widget'']
       {[''store''], [''store'', ''Widget''], [''store'', ''Widget'', ''123'']}
     = {[''store''], [''store'', ''Widget''], [''store'', ''Widget'', ''123'']}"
    by blast
  have wr: "Put golib exampleDB dirStore (Some widget)
     = Return (Some (wrapError ''unable to write file: open store/Widget/123: is a directory''
                 (PathError ''open'' ''store/Widget/123'' (Errno EISDIR))),
               dirStore)"
    by (simp add: run_simps widget_def widgetFields_def dirStore_def dirs)
  show ?thesis using enc wr by simp
qed

subsection \<open>Round trip\<close>

text \<open>
  C1, as the claim states it, fails: encoding/json writes exported fields only, so the
  field \<open>secret\<close> of an \<open>Account\<close> is not in the file, and \<open>GetByID\<close> into a fresh
  \<open>Account\<close> gives a value whose \<open>secret\<close> is empty.
\<close>

theorem roundtrip_unexported_counterexample:
  "idToken golib account = Some ''1''
   \<and> Sprint_any golib (Some (VInt 1)) = ''1''
   \<and> Put golib exampleDB emptyStore (Some account) = Return (None, accountStore)
   \<and> GetByID golib exampleDB accountStore (Some (VPtr (zero account))) (Some (VInt 1))
       = Return (Inr (VPtr (VStruct ''main'' ''Account''
           [(\<lparr>Name = ''ID'', Tag = []\<rparr>, VInt 1),
            (\<lparr>Name = ''secret'', Tag = []\<rparr>, VString [])])))
   \<and> VStruct ''main'' ''Account''
           [(\<lparr>Name = ''ID'', Tag = []\<rparr>, VInt 1),
            (\<lparr>Name = ''secret'', Tag = []\<rparr>, VString [])]
       \<noteq> account"
  by (simp add: run_simps idToken_def account_def accountStore_def)

text \<open>
  C1, amended.  For every record \<open>r\<close> whose identifier renders to the token \<open>k\<close> and
  whose encoding the codec decodes, into a fresh value of the type of \<open>r\<close>, back to
  \<open>r\<close>: after a successful \<open>Put\<close> of \<open>r\<close>, \<open>GetByID\<close> with a pointer to a fresh
  value of that type and an id that renders to \<open>k\<close> fills the destination with \<open>r\<close>.
\<close>

theorem Put_GetByID_roundtrip:
  assumes put: "Put lib db st (Some r) = Return (None, st')"
    and tok: "idToken lib r = Some k"
    and idk: "Sprint_any lib id' = k"
    and enc: "Marshal lib r = Inr data"
    and dec: "Unmarshal lib data (VPtr (zero r)) = Inr (VPtr r)"
  shows "GetByID lib db st' (Some (VPtr (zero r))) id' = Return (Inr (VPtr r))"
proof -
  have "ReadFile st' (entityPath db (TypeName (rtypeOf r)) (Sprint_any lib id')) = Inr data"
    using Put_success_read [OF put tok enc] idk by simp
  then show ?thesis using dec by (rule GetByID_fresh)
qed

theorem Put_GetByID_roundtrip_witness:
  "Put golib exampleDB emptyStore (Some widget) = Return (None, widgetStore)
   \<and> idToken golib widget = Some ''123''
   \<and> Sprint_any golib (Some (VInt 123)) = ''123''
   \<and> GetByID golib exampleDB widgetStore (Some (VPtr (zero widget))) (Some (VInt 123))
       = Return (Inr (VPtr widget))"
proof -
  have put: "Put golib exampleDB emptyStore (Some widget) = Return (None, widgetStore)"
    by (simp add: run_simps widget_def widgetFields_def widgetStore_def)
  have tok: "idToken golib widget = Some ''123''"
    by (simp add: run_simps idToken_def widget_def widgetFields_def)
  have idk: "Sprint_any golib (Some (VInt 123)) = ''123''"
    by (simp add: run_simps)
  have enc: "Marshal golib widget
      = Inr (JObject [(''Str'', JString ''string''), (''Num'', JNumber 123)])"
    by (simp add: run_simps widget_def widgetFields_def)
  have dec: "Unmarshal golib (JObject [(''Str'', JString ''string''), (''Num'', JNumber 123)])
      (VPtr (zero widget)) = Inr (VPtr widget)"
    by (simp add: run_simps widget_def widgetFields_def)
  show ?thesis
    using put tok idk Put_GetByID_roundtrip [OF put tok idk enc dec]
    by simp
qed

text \<open>
  With the codec of the concrete runs the condition on the codec holds for every plain
  record, so these records do come back from the store.
\<close>

lemma plain_record_roundtrip:
  assumes put: "Put golib db st (Some r) = Return (None, st')"
    and tok: "idToken golib r = Some k"
    and idk: "Sprint_any golib id' = k"
    and pl: "plain r"
  shows "GetByID golib db st' (Some (VPtr (zero r))) id' = Return (Inr (VPtr r))"
proof -
  from golib_plain_roundtrip [OF pl] obtain data where
    enc: "Marshal golib r = Inr data"
    and dec: "Unmarshal golib data (VPtr (zero r)) = Inr (VPtr r)"
    by blast
  have "ReadFile st' (entityPath db (TypeName (rtypeOf r)) (Sprint_any golib id')) = Inr data"
    using Put_success_read [OF put tok enc] idk by simp
  then show ?thesis using dec by (rule GetByID_fresh)
qed

subsection \<open>Namespaces\<close>


text \<open>
  The same happens across distinct type names when the token is not a plain file name:
  the records \<open>noteRec\<close> and \<open>memoRec\<close> have the identifier \<^verbatim>\<open>../Note/x\<close>, both
  paths denote the entry \<^verbatim>\<open>store/Note/x\<close>, and \<open>Put\<close> of the second replaces the
  first.
\<close>

lemma traversal_overwrites:
  "TypeName (rtypeOf noteRec) \<noteq> TypeName (rtypeOf memoRec)
   \<and> idToken golib noteRec = Some ''../Note/x''
   \<and> idToken golib memoRec = Some ''../Note/x''
   \<and> Put golib exampleDB emptyStore (Some noteRec) = Return (None, noteStore)
   \<and> ReadFile noteStore ''store/Note/../Note/x''
       = Inr (JObject [(''ID'', JString ''../Note/x''), (''Text'', JString ''first'')])
   \<and> Put golib exampleDB noteStore (Some memoRec) = Return (None, memoStore)
   \<and> ReadFile memoStore ''store/Note/../Note/x''
       = Inr (JObject [(''ID'', JString ''../Note/x''), (''Text'', JString ''second'')])"
proof -
  have a: "Put golib exampleDB emptyStore (Some noteRec) = Return (None, noteStore)"
    by (simp add: run_simps noteRec_def noteStore_def)
  have b: "Put golib exampleDB noteStore (Some memoRec) = Return (None, memoStore)"
    by (simp add: run_simps memoRec_def noteStore_def memoStore_def)
  have t: "idToken golib noteRec = Some ''../Note/x'' \<and> idToken golib memoRec = Some ''../Note/x''"
    by (simp add: run_simps idToken_def noteRec_def memoRec_def)
  have key: "cleanPath ''store/Note/../Note/x'' = [''store'', ''Note'', ''x'']"
    by (simp add: cleanPath_def cleanStep_def cleanFrom_def)
  have r: "ReadFile noteStore ''store/Note/../Note/x''
       = Inr (JObject [(''ID'', JString ''../Note/x''), (''Text'', JString ''first'')])
     \<and> ReadFile memoStore ''store/Note/../Note/x''
       = Inr (JObject [(''ID'', JString ''../Note/x''), (''Text'', JString ''second'')])"
    by (simp add: ReadFile_def noteStore_def memoStore_def lexical_def key)
  have n: "TypeName (rtypeOf noteRec) \<noteq> TypeName (rtypeOf memoRec)"
    by (simp add: noteRec_def memoRec_def)
  show ?thesis using a b t r n by simp
qed



subsection \<open>Overwrite\<close>

text \<open>
  C6, as the claim states it, fails for the same reason as C1: after \<open>Put\<close> of the first
  account and \<open>Put\<close> of the second, \<open>GetByID\<close> into a fresh \<open>Account\<close> gives a value
  that is not the second account, and \<open>GetByID\<close> into a destination that holds the
  first account gives the first account.
\<close>

theorem overwrite_unexported_counterexample:
  "idToken golib account = Some ''1''
   \<and> idToken golib account2 = Some ''1''
   \<and> rtypeOf account = rtypeOf account2
   \<and> account \<noteq> account2
   \<and> Put golib exampleDB emptyStore (Some account) = Return (None, accountStore)
   \<and> Put golib exampleDB accountStore (Some account2) = Return (None, accountStore)
   \<and> GetByID golib exampleDB accountStore (Some (VPtr (zero account2))) (Some (VInt 1))
       = Return (Inr (VPtr (VStruct ''main'' ''Account''
           [(\<lparr>Name = ''ID'', Tag = []\<rparr>, VInt 1),
            (\<lparr>Name = ''secret'', Tag = []\<rparr>, VString [])])))
   \<and> VStruct ''main'' ''Account''
           [(\<lparr>Name = ''ID'', Tag = []\<rparr>, VInt 1),
            (\<lparr>Name = ''secret'', Tag = []\<rparr>, VString [])]
       \<noteq> account2
   \<and> GetByID golib exampleDB accountStore (Some (VPtr account)) (Some (VInt 1))
       = Return (Inr (VPtr account))"
proof -
  have p1: "Put golib exampleDB emptyStore (Some account) = Return (None, accountStore)"
    by (simp add: run_simps account_def accountStore_def)
  have p2: "Put golib exampleDB accountStore (Some account2) = Return (None, accountStore)"
    by (simp add: run_simps account2_def accountStore_def)
  have g1: "GetByID golib exampleDB accountStore (Some (VPtr (zero account2))) (Some (VInt 1))
       = Return (Inr (VPtr (VStruct ''main'' ''Account''
           [(\<lparr>Name = ''ID'', Tag = []\<rparr>, VInt 1),
            (\<lparr>Name = ''secret'', Tag = []\<rparr>, VString [])])))"
    by (simp add: run_simps account2_def accountStore_def)
  have g2: "GetByID golib exampleDB accountStore (Some (VPtr account)) (Some (VInt 1))
       = Return (Inr (VPtr account))"
    by (simp add: run_simps account_def accountStore_def)
  have t: "idToken golib account = Some ''1'' \<and> idToken golib account2 = Some ''1''"
    by (simp add: run_simps idToken_def account_def account2_def)
  show ?thesis using p1 p2 g1 g2 t by (simp add: account_def account2_def)
qed

text \<open>
  C6, amended.  For every two records of the same type name whose identifiers render to
  the same token \<open>k\<close>: after a successful \<open>Put\<close> of the first, which leaves its encoding
  at the path, and a successful \<open>Put\<close> of the second, the file at the path holds exactly
  the encoding of the second; and when the codec decodes that encoding, into a fresh
  value, back to the second record, \<open>GetByID\<close> with an id that renders to \<open>k\<close> yields the
  second record, and so not the first when the two differ.
\<close>

theorem Put_overwrite:
  assumes p1: "Put lib db st (Some r1) = Return (None, st1)"
    and p2: "Put lib db st1 (Some r2) = Return (None, st2)"
    and ty: "TypeName (rtypeOf r1) = TypeName (rtypeOf r2)"
    and t1: "idToken lib r1 = Some k"
    and t2: "idToken lib r2 = Some k"
  shows "\<exists>data1 data2.
           Marshal lib r1 = Inr data1
         \<and> ReadFile st1 (entityPath db (TypeName (rtypeOf r2)) k) = Inr data1
         \<and> Marshal lib r2 = Inr data2
         \<and> ReadFile st2 (entityPath db (TypeName (rtypeOf r2)) k) = Inr data2
         \<and> (Sprint_any lib id' = k
              \<and> Unmarshal lib data2 (VPtr (zero r2)) = Inr (VPtr r2) \<longrightarrow>
              GetByID lib db st2 (Some (VPtr (zero r2))) id' = Return (Inr (VPtr r2))
              \<and> (r1 \<noteq> r2 \<longrightarrow>
                   GetByID lib db st2 (Some (VPtr (zero r2))) id' \<noteq> Return (Inr (VPtr r1))))"
proof -
  from Put_success_token [OF p1] obtain data1 where enc1: "Marshal lib r1 = Inr data1"
    by blast
  from Put_success_token [OF p2] obtain data2 where enc2: "Marshal lib r2 = Inr data2"
    by blast
  have first: "ReadFile st1 (entityPath db (TypeName (rtypeOf r2)) k) = Inr data1"
    using Put_success_read [OF p1 t1 enc1] ty by simp
  have second: "ReadFile st2 (entityPath db (TypeName (rtypeOf r2)) k) = Inr data2"
    using Put_success_read [OF p2 t2 enc2] .
  have get: "GetByID lib db st2 (Some (VPtr (zero r2))) id' = Return (Inr (VPtr r2))"
    if idk: "Sprint_any lib id' = k"
      and dec: "Unmarshal lib data2 (VPtr (zero r2)) = Inr (VPtr r2)"
  proof -
    have "ReadFile st2 (entityPath db (TypeName (rtypeOf r2)) (Sprint_any lib id')) = Inr data2"
      using second idk by simp
    then show ?thesis using dec by (rule GetByID_fresh)
  qed
  from enc1 enc2 first second get show ?thesis by auto
qed

theorem Put_overwrite_witness:
  "Put golib exampleDB emptyStore (Some widget) = Return (None, widgetStore)
   \<and> Put golib exampleDB widgetStore (Some widget2) = Return (None, widgetStore2)
   \<and> idToken golib widget = Some ''123''
   \<and> idToken golib widget2 = Some ''123''
   \<and> widget \<noteq> widget2
   \<and> ReadFile widgetStore2 ''store/Widget/123''
       = Inr (JObject [(''Str'', JString ''other''), (''Num'', JNumber 123)])
   \<and> GetByID golib exampleDB widgetStore2 (Some (VPtr (zero widget2))) (Some (VString ''123''))
       = Return (Inr (VPtr widget2))"
proof -
  have p1: "Put golib exampleDB emptyStore (Some widget) = Return (None, widgetStore)"
    by (simp add: run_simps widget_def widgetFields_def widgetStore_def)
  have p2: "Put golib exampleDB widgetStore (Some widget2) = Return (None, widgetStore2)"
    by (simp add: run_simps widget2_def widgetStore_def widgetStore2_def)
  have ty: "TypeName (rtypeOf widget) = TypeName (rtypeOf widget2)"
    by (simp add: widget_def widget2_def)
  have t1: "idToken golib widget = Some ''123''"
    by (simp add: run_simps idToken_def widget_def widgetFields_def)
  have t2: "idToken golib widget2 = Some ''123''"
    by (simp add: run_simps idToken_def widget2_def)
  have idk: "Sprint_any golib (Some (VString ''123'')) = ''123''"
    by (simp add: run_simps)
  have enc: "Marshal golib widget2
      = Inr (JObject [(''Str'', JString ''other''), (''Num'', JNumber 123)])"
    by (simp add: run_simps widget2_def)
  have dec: "Unmarshal golib (JObject [(''Str'', JString ''other''), (''Num'', JNumber 123)])
      (VPtr (zero widget2)) = Inr (VPtr widget2)"
    by (simp add: run_simps widget2_def)
  have ne: "widget \<noteq> widget2"
    by (simp add: widget_def widget2_def widgetFields_def)
  have path: "entityPath exampleDB (TypeName (rtypeOf widget2)) ''123'' = ''store/Widget/123''"
    by (simp add: entityPath_def exampleDB_def widget2_def)
  show ?thesis
    using p1 p2 t1 t2 ne path idk enc dec
      Put_overwrite [OF p1 p2 ty t1 t2, of "Some (VString ''123'')"]
    by auto
qed

end
